theory Spec2Isabelle
  imports Complex_Main "HOL-Library.List_Lexorder" "HOL-Library.Char_ord"
begin

section \<open>Retrieval evaluation and metrics engine of retrieval\_ensemble.py\<close>

text \<open>
  The embedding follows \<^verbatim>\<open>src/retrieval_ensemble.py\<close>. Integer NumPy arrays are lists of
  \<^typ>\<open>int\<close>. A finite floating-point value is modelled by the real number it stands for:
  rounding and signed zeros are not modelled, so a statement below about a finite value is
  a statement in exact arithmetic. The one exception is the average precision, which is
  modelled a second time with binary64 rounding after each operation
  (\<open>ComputeAveragePrecision_b64\<close>), because its bound depends on the rounding. The metrics
  file is a string, written by \<open>SaveMetricsFile\<close> and read by \<open>ReadMetricsFile\<close>. The
  non-finite values that NumPy produces where an integer is divided by zero (\<open>inf\<close>,
  \<open>-inf\<close>, \<open>nan\<close>) are values of the model, and the exceptions that Python raises are
  values of the type \<open>error\<close>.
\<close>

subsection \<open>Errors and floating-point values\<close>

datatype error = KeyError string | IndexError | ValueError | ZeroDivisionError

datatype npfloat = Fin real | PInf | NInf | NaN

text \<open>NumPy true division of two integers: division by zero gives \<open>nan\<close> or a signed
  infinity (with a warning), it does not raise.\<close>

definition int_truediv :: "int \<Rightarrow> int \<Rightarrow> npfloat" where
  "int_truediv a b =
     (if b = 0 then (if a = 0 then NaN else if 0 < a then PInf else NInf)
      else Fin (real_of_int a / real_of_int b))"

fun np_add :: "npfloat \<Rightarrow> npfloat \<Rightarrow> npfloat" where
  "np_add (Fin a) (Fin b) = Fin (a + b)"
| "np_add NaN _ = NaN"
| "np_add _ NaN = NaN"
| "np_add PInf NInf = NaN"
| "np_add NInf PInf = NaN"
| "np_add PInf _ = PInf"
| "np_add _ PInf = PInf"
| "np_add NInf _ = NInf"
| "np_add _ NInf = NInf"

text \<open>Multiplication of a NumPy float by a finite float \<open>c\<close>.\<close>

fun np_scale :: "npfloat \<Rightarrow> real \<Rightarrow> npfloat" where
  "np_scale (Fin a) c = Fin (a * c)"
| "np_scale NaN c = NaN"
| "np_scale PInf c = (if 0 < c then PInf else if c < 0 then NInf else NaN)"
| "np_scale NInf c = (if 0 < c then NInf else if c < 0 then PInf else NaN)"

text \<open>Division of a NumPy float by a Python integer.\<close>

fun np_div_int :: "npfloat \<Rightarrow> int \<Rightarrow> npfloat" where
  "np_div_int (Fin a) n =
     (if n = 0 then (if a = 0 then NaN else if 0 < a then PInf else NInf)
      else Fin (a / real_of_int n))"
| "np_div_int NaN n = NaN"
| "np_div_int PInf n = (if 0 \<le> n then PInf else NInf)"
| "np_div_int NInf n = (if 0 \<le> n then NInf else PInf)"

subsection \<open>Ground-truth subsets\<close>

text \<open>A per-query record of \<open>ReadDatasetFile\<close>: a dict that may have the keys
  \<open>easy\<close>, \<open>hard\<close> and \<open>junk\<close>, and always has \<open>bbx\<close>.\<close>

record query_ground_truth =
  labels :: "string \<rightharpoonup> int list"
  bbx :: "real list"

record ok_junk =
  ok :: "int list"
  junk :: "int list"

definition getitem :: "query_ground_truth \<Rightarrow> string \<Rightarrow> error + int list" where
  "getitem g k = (case labels g k of None \<Rightarrow> Inl (KeyError k) | Some v \<Rightarrow> Inr v)"

definition ParseGroundTruth :: "int list list \<Rightarrow> int list list \<Rightarrow> ok_junk" where
  "ParseGroundTruth ok_list junk_list = \<lparr>ok = concat ok_list, junk = concat junk_list\<rparr>"

text \<open>One iteration of the loop of \<open>ParseEasyMediumHardGroundTruth\<close>. Python evaluates the
  arguments of the first call left to right: \<open>easy\<close>, then \<open>junk\<close>, then \<open>hard\<close>; the first
  missing key raises.\<close>

definition parse_query :: "query_ground_truth \<Rightarrow> error + (ok_junk \<times> ok_junk \<times> ok_junk)" where
  "parse_query g =
     (case getitem g ''easy'' of Inl e \<Rightarrow> Inl e | Inr easy \<Rightarrow>
      (case getitem g ''junk'' of Inl e \<Rightarrow> Inl e | Inr jnk \<Rightarrow>
       (case getitem g ''hard'' of Inl e \<Rightarrow> Inl e | Inr hard \<Rightarrow>
          Inr (ParseGroundTruth [easy] [jnk, hard],
               ParseGroundTruth [easy, hard] [jnk],
               ParseGroundTruth [hard] [jnk, easy]))))"

fun parse_loop ::
  "query_ground_truth list \<Rightarrow> ok_junk list \<times> ok_junk list \<times> ok_junk list \<Rightarrow>
   error + (ok_junk list \<times> ok_junk list \<times> ok_junk list)" where
  "parse_loop [] acc = Inr acc"
| "parse_loop (g # gs) (es, ms, hs) =
     (case parse_query g of Inl e \<Rightarrow> Inl e
      | Inr (e, m, h) \<Rightarrow> parse_loop gs (es @ [e], ms @ [m], hs @ [h]))"

definition ParseEasyMediumHardGroundTruth ::
  "query_ground_truth list \<Rightarrow> error + (ok_junk list \<times> ok_junk list \<times> ok_junk list)" where
  "ParseEasyMediumHardGroundTruth ground_truth = parse_loop ground_truth ([], [], [])"

subsection \<open>Rank adjustment\<close>

text \<open>\<open>AdjustPositiveRanks\<close> binds \<open>adjusted_positive_ranks\<close> to the array it was given and
  updates it in place, so arrays live in a store: an address names an array object.\<close>

type_synonym addr = nat
type_synonym store = "addr \<Rightarrow> int list"

text \<open>The inner \<open>while\<close> loop: advance \<open>j\<close> past the junk ranks below \<open>positive_index\<close>.\<close>

function advance :: "store \<Rightarrow> addr \<Rightarrow> int \<Rightarrow> nat \<Rightarrow> nat" where
  "advance h q positive_index j =
     (if j < length (h q) \<and> h q ! j < positive_index
      then advance h q positive_index (Suc j) else j)"
  by pat_completeness auto
termination
  by (relation "measure (\<lambda>(h, q, p, j). length (h q) - j)") auto

text \<open>The \<open>for\<close> loop over the positions of the array at \<open>p\<close>; position \<open>i\<close> is read when
  the loop reaches it and then overwritten.\<close>

function adjust_loop :: "addr \<Rightarrow> addr \<Rightarrow> nat \<Rightarrow> nat \<Rightarrow> store \<Rightarrow> store" where
  "adjust_loop p q i j h =
     (if i < length (h p)
      then (let positive_index = h p ! i;
                j' = advance h q positive_index j
            in adjust_loop p q (Suc i) j' (h(p := (h p)[i := h p ! i - int j'])))
      else h)"
  by pat_completeness auto
termination
  by (relation "measure (\<lambda>(p, q, i, j, h). length (h p) - i)") auto

definition AdjustPositiveRanks :: "store \<Rightarrow> addr \<Rightarrow> addr \<Rightarrow> store \<times> addr" where
  "AdjustPositiveRanks h positive_ranks junk_ranks =
     (if h junk_ranks = [] then (h, positive_ranks)
      else (adjust_loop positive_ranks junk_ranks 0 0 h, positive_ranks))"

text \<open>The array that \<open>AdjustPositiveRanks\<close> returns: the contents, in the store it leaves,
  of the address it returns.\<close>

definition adjusted :: "store \<Rightarrow> addr \<Rightarrow> addr \<Rightarrow> int list" where
  "adjusted h positive_ranks junk_ranks =
     (case AdjustPositiveRanks h positive_ranks junk_ranks of (h', r) \<Rightarrow> h' r)"

subsection \<open>Average precision\<close>

fun ap_loop :: "real \<Rightarrow> nat \<Rightarrow> int list \<Rightarrow> npfloat \<Rightarrow> npfloat" where
  "ap_loop recall_step i [] average_precision = average_precision"
| "ap_loop recall_step i (rank # rest) average_precision =
     (let left_precision = (if rank = 0 then Fin 1 else int_truediv (int i) rank);
          right_precision = int_truediv (int i + 1) (rank + 1)
      in ap_loop recall_step (Suc i) rest
           (np_add average_precision
              (np_div_int (np_scale (np_add left_precision right_precision) recall_step) 2)))"

definition ComputeAveragePrecision :: "int list \<Rightarrow> npfloat" where
  "ComputeAveragePrecision positive_ranks =
     (let num_expected_positives = length positive_ranks
      in if num_expected_positives = 0 then Fin 0
         else ap_loop (1 / real num_expected_positives) 0 positive_ranks (Fin 0))"

subsection \<open>Precision and recall at fixed ranks\<close>

definition count_le :: "int list \<Rightarrow> int \<Rightarrow> int" where
  "count_le xs k = int (length (filter (\<lambda>x. x \<le> k) xs))"

fun pr_loop :: "int list \<Rightarrow> int list \<Rightarrow> npfloat list \<times> npfloat list" where
  "pr_loop one_indexed [] = ([], [])"
| "pr_loop one_indexed (desired_pr_rank # rest) =
     (let recall = int_truediv (count_le one_indexed desired_pr_rank) (int (length one_indexed));
          precision_rank = min (foldl max (hd one_indexed) (tl one_indexed)) desired_pr_rank;
          precision = int_truediv (count_le one_indexed precision_rank) precision_rank;
          (precisions, recalls) = pr_loop one_indexed rest
      in (precision # precisions, recall # recalls))"

definition ComputePRAtRanks :: "int list \<Rightarrow> int list \<Rightarrow> npfloat list \<times> npfloat list" where
  "ComputePRAtRanks positive_ranks desired_pr_ranks =
     (if length positive_ranks = 0
      then (replicate (length desired_pr_ranks) (Fin 0),
            replicate (length desired_pr_ranks) (Fin 0))
      else pr_loop (map (\<lambda>r. r + 1) positive_ranks) desired_pr_ranks)"

subsection \<open>Aggregate metrics\<close>

text \<open>The ranking matrix \<open>sorted_index_ids\<close> is a two-dimensional array: its rows, and the
  number of columns that its shape reports (also when it has no row).\<close>

record int_matrix =
  num_cols :: nat
  rows_of :: "int list list"

text \<open>Every row has the number of columns of the shape.\<close>

definition wf_matrix :: "int_matrix \<Rightarrow> bool" where
  "wf_matrix m = list_all (\<lambda>r. length r = num_cols m) (rows_of m)"

text \<open>\<open>np.arange(num_index_images)[np.in1d(row, ids)]\<close>: the positions of the row whose
  identifier is among \<open>ids\<close>, in increasing order.\<close>

definition positions :: "nat \<Rightarrow> int list \<Rightarrow> int list \<Rightarrow> int list" where
  "positions n row ids = map int (filter (\<lambda>r. row ! r \<in> set ids) [0..<n])"

text \<open>The two rank arrays are built afresh for every query: two distinct objects that
  nothing else refers to.\<close>

definition fresh_store :: "int list \<Rightarrow> int list \<Rightarrow> store" where
  "fresh_store positive_ranks junk_ranks = (\<lambda>a. [])(0 := positive_ranks, 1 := junk_ranks)"

text \<open>The variables of the loop of \<open>ComputeMetrics\<close>. The per-query arrays are filled
  in the order of the queries, so they are built here by appending.\<close>

record metrics_acc =
  mean_average_precision :: npfloat
  mean_precisions :: "npfloat list"
  mean_recalls :: "npfloat list"
  average_precisions :: "npfloat list"
  precisions :: "npfloat list list"
  recalls :: "npfloat list list"
  num_empty_gt_queries :: nat

definition query_ranks :: "nat \<Rightarrow> int list \<Rightarrow> ok_junk \<Rightarrow> int list" where
  "query_ranks n row gt =
     (let positive_ranks = positions n row (ok gt);
          junk_ranks = positions n row (junk gt)
      in adjusted (fresh_store positive_ranks junk_ranks) 0 1)"

fun metrics_loop ::
  "nat \<Rightarrow> int list \<Rightarrow> int list list \<Rightarrow> ok_junk list \<Rightarrow> metrics_acc \<Rightarrow> error + metrics_acc" where
  "metrics_loop n d [] gts acc = Inr acc"
| "metrics_loop n d (row # rows) [] acc = Inl IndexError"
| "metrics_loop n d (row # rows) (gt # gts) acc =
     (if ok gt = []
      then metrics_loop n d rows gts
             (acc\<lparr>average_precisions := average_precisions acc @ [NaN],
                  precisions := precisions acc @ [replicate (length d) NaN],
                  recalls := recalls acc @ [replicate (length d) NaN],
                  num_empty_gt_queries := Suc (num_empty_gt_queries acc)\<rparr>)
      else (let adjusted_positive_ranks = query_ranks n row gt;
                ap = ComputeAveragePrecision adjusted_positive_ranks;
                pr = ComputePRAtRanks adjusted_positive_ranks d
            in metrics_loop n d rows gts
                 (acc\<lparr>mean_average_precision := np_add (mean_average_precision acc) ap,
                      mean_precisions := map2 np_add (mean_precisions acc) (fst pr),
                      mean_recalls := map2 np_add (mean_recalls acc) (snd pr),
                      average_precisions := average_precisions acc @ [ap],
                      precisions := precisions acc @ [fst pr],
                      recalls := recalls acc @ [snd pr]\<rparr>)))"

definition init_acc :: "nat \<Rightarrow> metrics_acc" where
  "init_acc k =
     \<lparr>mean_average_precision = Fin 0, mean_precisions = replicate k (Fin 0),
      mean_recalls = replicate k (Fin 0), average_precisions = [], precisions = [],
      recalls = [], num_empty_gt_queries = 0\<rparr>"

text \<open>
  \<open>sorted(desired_pr_ranks)[-1]\<close> raises \<open>IndexError\<close> on an empty list. The final
  division \<open>mean_average_precision /= num_valid_queries\<close> divides by a Python \<open>int\<close>; when
  that is zero every query took the \<open>continue\<close> branch, so \<open>mean_average_precision\<close> is still
  the Python float \<open>0.0\<close> it was initialised with, and Python raises \<open>ZeroDivisionError\<close>.
\<close>

definition ComputeMetrics ::
  "int_matrix \<Rightarrow> ok_junk list \<Rightarrow> int list \<Rightarrow>
   error + (npfloat \<times> npfloat list \<times> npfloat list \<times> npfloat list \<times> npfloat list list \<times> npfloat list list)" where
  "ComputeMetrics sorted_index_ids ground_truth desired_pr_ranks =
     (let num_queries = length (rows_of sorted_index_ids);
          num_index_images = num_cols sorted_index_ids
      in if desired_pr_ranks = [] then Inl IndexError
         else if int num_index_images < last (sort desired_pr_ranks) then Inl ValueError
         else (case metrics_loop num_index_images desired_pr_ranks (rows_of sorted_index_ids)
                      ground_truth (init_acc (length desired_pr_ranks)) of
                 Inl e \<Rightarrow> Inl e
               | Inr acc \<Rightarrow>
                   (let num_valid_queries = int num_queries - int (num_empty_gt_queries acc)
                    in if num_valid_queries = 0 then Inl ZeroDivisionError
                       else Inr (np_div_int (mean_average_precision acc) num_valid_queries,
                                 map (\<lambda>x. np_div_int x num_valid_queries) (mean_precisions acc),
                                 map (\<lambda>x. np_div_int x num_valid_queries) (mean_recalls acc),
                                 average_precisions acc, precisions acc, recalls acc))))"

subsection \<open>Binary64 rounding\<close>

text \<open>
  Python floats and NumPy \<open>float64\<close> values are IEEE 754 binary64 numbers: every arithmetic
  operation returns the representable number nearest to the exact result, ties going to the
  even significand. \<open>b64\<close> is that rounding for finite values in the normal range (overflow,
  subnormal numbers and signed zeros are left out): the magnitude is scaled by powers of two
  until it lies between \<open>2^52\<close> and \<open>2^53\<close>, rounded to an integer, and scaled back. The
  exponent of a binary64 number lies between -1074 and 1023, which bounds the search.
\<close>

definition pow2 :: "int \<Rightarrow> real" where
  "pow2 e = (if 0 \<le> e then 2 ^ nat e else 1 / 2 ^ nat (- e))"

definition round_half_even :: "real \<Rightarrow> int" where
  "round_half_even y =
     (let f = \<lfloor>y\<rfloor>; r = y - of_int f
      in if r < 1 / 2 then f else if 1 / 2 < r then f + 1 else if even f then f else f + 1)"

fun normalise :: "nat \<Rightarrow> real \<Rightarrow> int \<Rightarrow> real \<times> int" where
  "normalise 0 a e = (a, e)"
| "normalise (Suc k) a e =
     (if a < 4503599627370496 then normalise k (2 * a) (e - 1)
      else if 9007199254740992 \<le> a then normalise k (a / 2) (e + 1)
      else (a, e))"

definition b64 :: "real \<Rightarrow> real" where
  "b64 x =
     (if x = 0 then 0
      else (case normalise 2200 \<bar>x\<bar> 0 of
              (y, e) \<Rightarrow> sgn x * of_int (round_half_even y) * pow2 e))"



subsection \<open>The metrics file\<close>

text \<open>
  \<open>SaveMetricsFile\<close> writes a text file and \<open>ReadMetricsFile\<close> reads one. A file is modelled
  by its content, a \<^typ>\<open>string\<close>; a character is a code point below 256.
\<close>

definition newline :: char where
  "newline = CHR 0x0A"

text \<open>The characters below 256 that Python counts as whitespace (\<open>str.isspace\<close>).\<close>

definition is_space :: "char \<Rightarrow> bool" where
  "is_space c =
     (c \<in> set [CHR 0x09, CHR 0x0A, CHR 0x0B, CHR 0x0C, CHR 0x0D, CHR 0x1C, CHR 0x1D,
                CHR 0x1E, CHR 0x1F, CHR 0x20, CHR 0x85, CHR 0xA0])"

text \<open>\<open>s.rstrip()\<close>.\<close>

definition rstrip :: "string \<Rightarrow> string" where
  "rstrip s = rev (dropWhile is_space (rev s))"

text \<open>\<open>s.split(c)\<close> for a separator of one character: the pieces between the occurrences of
  \<open>c\<close>, the empty ones included.\<close>

fun split_on :: "char \<Rightarrow> string \<Rightarrow> string list" where
  "split_on c [] = [[]]"
| "split_on c (x # xs) =
     (if x = c then [] # split_on c xs
      else (case split_on c xs of [] \<Rightarrow> [[x]] | p # ps \<Rightarrow> (x # p) # ps))"

text \<open>\<open>s.split()\<close>: the maximal runs of characters that are not whitespace.\<close>

fun words_acc :: "string \<Rightarrow> string \<Rightarrow> string list" where
  "words_acc w [] = (if w = [] then [] else [rev w])"
| "words_acc w (x # xs) =
     (if is_space x then (if w = [] then words_acc [] xs else rev w # words_acc [] xs)
      else words_acc (x # w) xs)"

definition split_ws :: "string \<Rightarrow> string list" where
  "split_ws s = words_acc [] s"

text \<open>Iterating over a file yields its lines, each with its terminating newline, and a last
  line without one if the content does not end in a newline. Here the lines come without the
  newline: \<open>ReadMetricsFile\<close> strips every line on the right before it uses it.\<close>

definition file_lines :: "string \<Rightarrow> string list" where
  "file_lines content =
     (let pieces = split_on newline content
      in if last pieces = [] then butlast pieces else pieces)"

text \<open>\<open>line.startswith(prefix)\<close>.\<close>

definition startswith :: "string \<Rightarrow> string \<Rightarrow> bool" where
  "startswith line p = (take (length p) line = p)"

text \<open>
  The library functions that the two functions call on floating-point values and on the text
  of numbers are not part of the repository; they are parameters of the model:
  \<open>np.around(x, decimals=2)\<close>; the text that \<open>'{}'.format\<close> gives for a NumPy \<open>float64\<close> and
  for a one-dimensional array of them; and the built-in \<open>float\<close> and \<open>int\<close> on a string,
  which give \<open>None\<close> where Python raises \<open>ValueError\<close>. The floating-point values are finite.
\<close>

record py_lib =
  around2 :: "real \<Rightarrow> real"
  str_float64 :: "real \<Rightarrow> string"
  str_float64_array :: "real list \<Rightarrow> string"
  float_of_str :: "string \<Rightarrow> real option"
  int_of_str :: "string \<Rightarrow> int option"

text \<open>
  \<open>SaveMetricsFile\<close> formats \<open>np.array(pr_ranks)\<close> with \<open>'{}'\<close>, which is \<open>str\<close> of a
  one-dimensional NumPy array of integers. NumPy prints it (\<open>array2string\<close> with the default
  print options: line width 75, threshold 1000, 3 edge items) as follows: every entry in
  decimal, padded on the left to the width of the longer of the largest and the smallest
  entry (\<open>IntegerFormat\<close>); the entries separated by one space; before an entry that would
  end beyond column 74, the line is stripped on the right and a new line is begun, indented
  by one space (\<open>_extendLine\<close>); an array of more than 1000 entries is cut down to its first
  three and its last three, with \<open>...\<close> between them; the whole in brackets, and \<open>[]\<close> for
  the empty array. \<open>format_array\<close> is the part that NumPy uses for every one-dimensional
  array, given the texts of the entries.
\<close>

fun str_nat :: "nat \<Rightarrow> string" where
  "str_nat n =
     (if n < 10 then [''0123456789'' ! n] else str_nat (n div 10) @ [''0123456789'' ! (n mod 10)])"

definition str_int :: "int \<Rightarrow> string" where
  "str_int x = (if x < 0 then CHR ''-'' # str_nat (nat (- x)) else str_nat (nat x))"

definition rjust :: "nat \<Rightarrow> string \<Rightarrow> string" where
  "rjust w s = replicate (w - length s) (CHR '' '') @ s"

definition extend_line :: "string \<Rightarrow> string \<Rightarrow> string \<Rightarrow> string \<times> string" where
  "extend_line s line word =
     (if 74 < length line + length word \<and> 1 < length line
      then (s @ rstrip line @ [newline], '' '' @ word)
      else (s, line @ word))"

fun format_row :: "string list \<Rightarrow> string \<Rightarrow> string \<Rightarrow> string \<times> string" where
  "format_row [] s line = (s, line)"
| "format_row [word] s line = extend_line s line word"
| "format_row (word # rest) s line =
     (case extend_line s line word of (s', line') \<Rightarrow> format_row rest s' (line' @ '' ''))"

definition format_array :: "string list \<Rightarrow> string" where
  "format_array entries =
     (case format_row entries [] '' '' of (s, line) \<Rightarrow> ''['' @ drop 1 (s @ line) @ '']'')"

definition np_int_array_str :: "int list \<Rightarrow> string" where
  "np_int_array_str a =
     (if a = [] then ''[]''
      else (let summary = (1000 < length a);
                data = (if summary then take 3 a @ drop (length a - 3) a else a);
                width = max (length (str_int (foldl max (hd data) (tl data))))
                            (length (str_int (foldl min (hd data) (tl data))));
                fmt = (\<lambda>x. rjust width (str_int x))
            in format_array
                 (if summary
                  then map fmt (take 3 a) @ [''...''] @ map fmt (drop (length a - 3) a)
                  else map fmt a)))"

subsection \<open>Writing the metrics file\<close>

text \<open>A dict is an association list, read by \<open>map_of\<close>. The text that one iteration of the
  loop of \<open>SaveMetricsFile\<close> writes; the products by 100 are rounded to binary64.\<close>

definition format_block ::
  "py_lib \<Rightarrow> string \<Rightarrow> real \<Rightarrow> real list \<Rightarrow> real list \<Rightarrow> int list \<Rightarrow> string" where
  "format_block L k mean_ap p_scores r_scores pr_ranks =
     k @ [newline] @
     ''  mAP='' @ str_float64 L (around2 L (b64 (mean_ap * 100))) @ [newline] @
     ''  mP@k'' @ np_int_array_str pr_ranks @ '' '' @
       str_float64_array L (map (\<lambda>x. around2 L (b64 (x * 100))) p_scores) @ [newline] @
     ''  mR@k'' @ np_int_array_str pr_ranks @ '' '' @
       str_float64_array L (map (\<lambda>x. around2 L (b64 (x * 100))) r_scores) @ [newline]"

text \<open>The loop over \<open>sorted(mean_average_precision.keys())\<close>; the value is the content of
  the file when the function returns, or the \<open>KeyError\<close> of a protocol that one of the other
  two dicts lacks.\<close>

fun write_blocks ::
  "py_lib \<Rightarrow> (string \<times> real) list \<Rightarrow> (string \<times> real list) list \<Rightarrow>
   (string \<times> real list) list \<Rightarrow> int list \<Rightarrow> string list \<Rightarrow> error + string" where
  "write_blocks L mean_ap_dict mean_precisions_dict mean_recalls_dict pr_ranks [] = Inr []"
| "write_blocks L mean_ap_dict mean_precisions_dict mean_recalls_dict pr_ranks (k # ks) =
     (case map_of mean_ap_dict k of
        None \<Rightarrow> Inl (KeyError k)
      | Some mean_ap \<Rightarrow>
     (case map_of mean_precisions_dict k of
        None \<Rightarrow> Inl (KeyError k)
      | Some p_scores \<Rightarrow>
     (case map_of mean_recalls_dict k of
        None \<Rightarrow> Inl (KeyError k)
      | Some r_scores \<Rightarrow>
     (case write_blocks L mean_ap_dict mean_precisions_dict mean_recalls_dict pr_ranks ks of
        Inl e \<Rightarrow> Inl e
      | Inr rest \<Rightarrow> Inr (format_block L k mean_ap p_scores r_scores pr_ranks @ rest)))))"

definition SaveMetricsFile ::
  "py_lib \<Rightarrow> (string \<times> real) list \<Rightarrow> (string \<times> real list) list \<Rightarrow>
   (string \<times> real list) list \<Rightarrow> int list \<Rightarrow> error + string" where
  "SaveMetricsFile L mean_ap_dict mean_precisions_dict mean_recalls_dict pr_ranks =
     write_blocks L mean_ap_dict mean_precisions_dict mean_recalls_dict pr_ranks
       (sort (remdups (map fst mean_ap_dict)))"

subsection \<open>Reading the metrics file\<close>

text \<open>\<open>_ParseSpaceSeparatedStringsInBrackets\<close>: the first prefix that the line starts with is
  cut off (\<open>ValueError\<close> if there is none); the rest is split at \<open>[\<close>, piece \<open>ind\<close> is taken
  (\<open>IndexError\<close> if there are too few), cut at the first \<open>]\<close> and split at whitespace.\<close>

definition ParseSpaceSeparatedStringsInBrackets ::
  "string \<Rightarrow> string list \<Rightarrow> nat \<Rightarrow> error + string list" where
  "ParseSpaceSeparatedStringsInBrackets line prefixes ind =
     (case find (startswith line) prefixes of
        None \<Rightarrow> Inl ValueError
      | Some p \<Rightarrow>
          (let pieces = split_on (CHR ''['') (drop (length p) line)
           in if length pieces \<le> ind then Inl IndexError
              else Inr (split_ws (hd (split_on (CHR '']'') (pieces ! ind))))))"

text \<open>A list comprehension that converts every entry, with the first failure raised.\<close>

fun convert_all :: "(string \<Rightarrow> 'a option) \<Rightarrow> string list \<Rightarrow> error + 'a list" where
  "convert_all f [] = Inr []"
| "convert_all f (x # xs) =
     (case f x of
        None \<Rightarrow> Inl ValueError
      | Some v \<Rightarrow> (case convert_all f xs of Inl e \<Rightarrow> Inl e | Inr vs \<Rightarrow> Inr (v # vs)))"

definition ParsePrRanks :: "py_lib \<Rightarrow> string \<Rightarrow> error + int list" where
  "ParsePrRanks L line =
     (case ParseSpaceSeparatedStringsInBrackets line [''  mP@k[''] 0 of
        Inl e \<Rightarrow> Inl e
      | Inr entries \<Rightarrow> convert_all (int_of_str L) (filter (\<lambda>pr_rank. pr_rank \<noteq> []) entries))"

definition ParsePrScores :: "py_lib \<Rightarrow> string \<Rightarrow> nat \<Rightarrow> error + real list" where
  "ParsePrScores L line num_pr_ranks =
     (case ParseSpaceSeparatedStringsInBrackets line [''  mP@k['', ''  mR@k[''] 1 of
        Inl e \<Rightarrow> Inl e
      | Inr entries \<Rightarrow>
          (case convert_all (float_of_str L) (filter (\<lambda>pr_score. pr_score \<noteq> []) entries) of
             Inl e \<Rightarrow> Inl e
           | Inr pr_scores \<Rightarrow>
               if length pr_scores \<noteq> num_pr_ranks then Inl ValueError else Inr pr_scores))"

text \<open>The loop over the blocks of four lines, with the variables of \<open>ReadMetricsFile\<close> as
  arguments: the three dicts read so far (association lists, in the order of insertion), the
  rank list and the set of protocols.\<close>

fun read_blocks ::
  "py_lib \<Rightarrow> string list \<Rightarrow> (string \<times> real) list \<Rightarrow> int list \<Rightarrow>
   (string \<times> real list) list \<Rightarrow> (string \<times> real list) list \<Rightarrow> string set \<Rightarrow>
   error + (string \<times> real) list \<times> int list \<times> (string \<times> real list) list \<times>
     (string \<times> real list) list" where
  "read_blocks L (protocol # line1 # line2 # line3 # rest) mean_ap_dict pr_ranks
     mean_precisions_dict mean_recalls_dict protocols =
     (if protocol \<in> protocols then Inl ValueError
      else (let fields = split_on (CHR ''='') line1
            in if length fields \<le> 1 then Inl IndexError
               else (case float_of_str L (fields ! 1) of
                       None \<Rightarrow> Inl ValueError
                     | Some mean_ap \<Rightarrow>
                    (case ParsePrRanks L line2 of
                       Inl e \<Rightarrow> Inl e
                     | Inr parsed_pr_ranks \<Rightarrow>
                    (if pr_ranks \<noteq> [] \<and> parsed_pr_ranks \<noteq> pr_ranks then Inl ValueError
                     else (let ranks = (if pr_ranks = [] then parsed_pr_ranks else pr_ranks)
                           in (case ParsePrScores L line2 (length ranks) of
                                 Inl e \<Rightarrow> Inl e
                               | Inr p_scores \<Rightarrow>
                              (case ParsePrScores L line3 (length ranks) of
                                 Inl e \<Rightarrow> Inl e
                               | Inr r_scores \<Rightarrow>
                                   read_blocks L rest
                                     (mean_ap_dict @ [(protocol, b64 (mean_ap / 100))])
                                     ranks
                                     (mean_precisions_dict @
                                        [(protocol, map (\<lambda>x. b64 (x / 100)) p_scores)])
                                     (mean_recalls_dict @
                                        [(protocol, map (\<lambda>x. b64 (x / 100)) r_scores)])
                                     (insert protocol protocols)))))))))"
| "read_blocks L [] mean_ap_dict pr_ranks mean_precisions_dict mean_recalls_dict protocols =
     Inr (mean_ap_dict, pr_ranks, mean_precisions_dict, mean_recalls_dict)"
| "read_blocks L lines mean_ap_dict pr_ranks mean_precisions_dict mean_recalls_dict protocols =
     Inl IndexError"

definition ReadMetricsFile ::
  "py_lib \<Rightarrow> string \<Rightarrow>
   error + (string \<times> real) list \<times> int list \<times> (string \<times> real list) list \<times>
     (string \<times> real list) list" where
  "ReadMetricsFile L content =
     (let file_contents_stripped = map rstrip (file_lines content)
      in if length file_contents_stripped mod 4 \<noteq> 0 then Inl ValueError
         else read_blocks L file_contents_stripped [] [] [] [] {})"

subsection \<open>Predicates and sample inputs of the statements\<close>

text \<open>A record carries all three of the keys \<open>easy\<close>, \<open>hard\<close> and \<open>junk\<close>.\<close>

definition has_keys :: "query_ground_truth \<Rightarrow> bool" where
  "has_keys g =
     (labels g ''easy'' \<noteq> None \<and> labels g ''hard'' \<noteq> None \<and> labels g ''junk'' \<noteq> None)"

definition easy_of :: "query_ground_truth \<Rightarrow> ok_junk" where
  "easy_of g =
     ParseGroundTruth [the (labels g ''easy'')] [the (labels g ''junk''), the (labels g ''hard'')]"

definition medium_of :: "query_ground_truth \<Rightarrow> ok_junk" where
  "medium_of g =
     ParseGroundTruth [the (labels g ''easy''), the (labels g ''hard'')] [the (labels g ''junk'')]"

definition hard_of :: "query_ground_truth \<Rightarrow> ok_junk" where
  "hard_of g =
     ParseGroundTruth [the (labels g ''hard'')] [the (labels g ''junk''), the (labels g ''easy'')]"

text \<open>The number of junk ranks strictly below a rank.\<close>

definition num_below :: "int list \<Rightarrow> int \<Rightarrow> nat" where
  "num_below js x = length (filter (\<lambda>y. y < x) js)"

definition full_record :: query_ground_truth where
  "full_record =
     \<lparr>labels = [''easy'' \<mapsto> [3, 5], ''hard'' \<mapsto> [7], ''junk'' \<mapsto> [9]], bbx = [0, 0, 1, 1]\<rparr>"

definition no_hard_record :: query_ground_truth where
  "no_hard_record = \<lparr>labels = [''easy'' \<mapsto> [3, 5], ''junk'' \<mapsto> [9]], bbx = [0, 0, 1, 1]\<rparr>"

text \<open>A store with \<open>positive_ranks = [0, 2]\<close> at address 0 and \<open>junk_ranks = [1]\<close> at
  address 1; every other address holds an empty array.\<close>

definition ex_store :: store where
  "ex_store = (\<lambda>a. [])(0 := [0, 2], 1 := [1])"



text \<open>The per-query values of a query with positives, and the sums of the statements.\<close>

definition query_ap :: "nat \<Rightarrow> int list \<Rightarrow> ok_junk \<Rightarrow> npfloat" where
  "query_ap n row gt = ComputeAveragePrecision (query_ranks n row gt)"

definition query_precisions :: "nat \<Rightarrow> int list \<Rightarrow> int list \<Rightarrow> ok_junk \<Rightarrow> npfloat list" where
  "query_precisions n d row gt = fst (ComputePRAtRanks (query_ranks n row gt) d)"

definition query_recalls :: "nat \<Rightarrow> int list \<Rightarrow> int list \<Rightarrow> ok_junk \<Rightarrow> npfloat list" where
  "query_recalls n d row gt = snd (ComputePRAtRanks (query_ranks n row gt) d)"

definition valid_queries :: "int list list \<Rightarrow> ok_junk list \<Rightarrow> (int list \<times> ok_junk) list" where
  "valid_queries rows gts = filter (\<lambda>(row, gt). ok gt \<noteq> []) (zip rows gts)"

definition np_sum :: "npfloat list \<Rightarrow> npfloat" where
  "np_sum xs = foldl np_add (Fin 0) xs"

definition np_vec_sum :: "nat \<Rightarrow> npfloat list list \<Rightarrow> npfloat list" where
  "np_vec_sum k vs = foldl (map2 np_add) (replicate k (Fin 0)) vs"

definition num_valid :: "int list list \<Rightarrow> ok_junk list \<Rightarrow> int" where
  "num_valid rows gts = int (length rows) - int (length (filter (\<lambda>gt. ok gt = []) gts))"

text \<open>Three queries over three index images; the second query has no positive.\<close>

definition m3 :: int_matrix where
  "m3 = \<lparr>num_cols = 3, rows_of = [[2, 0, 1], [0, 1, 2], [1, 2, 0]]\<rparr>"

definition gt3 :: "ok_junk list" where
  "gt3 = [\<lparr>ok = [2], junk = []\<rparr>, \<lparr>ok = [], junk = [1]\<rparr>, \<lparr>ok = [0], junk = [1]\<rparr>]"

definition gt_empty :: "ok_junk list" where
  "gt_empty = [\<lparr>ok = [], junk = []\<rparr>, \<lparr>ok = [], junk = [1]\<rparr>, \<lparr>ok = [], junk = [0, 2]\<rparr>]"

text \<open>One query over one index image, with no positive.\<close>

definition m1 :: int_matrix where
  "m1 = \<lparr>num_cols = 1, rows_of = [[0]]\<rparr>"

text \<open>
  Thirty ranks, the text that NumPy prints for them, and the text that it prints for thirty
  values 50.0. \<open>lib_half\<close> stands for the library functions as Python and NumPy behave on
  the values of the examples below: every score is 0.5, printed \<open>50.0\<close> as a scalar and
  \<open>50.\<close> as an entry of an array, and every rank is written in decimal digits.
\<close>

definition ranks30 :: "int list" where
  "ranks30 = [1, 2, 3, 4, 5, 6, 7, 8, 9, 10, 11, 12, 13, 14, 15, 16, 17, 18, 19, 20,
              21, 22, 23, 24, 25, 26, 27, 28, 29, 30]"

definition ranks30_str :: string where
  "ranks30_str =
     ''[ 1  2  3  4  5  6  7  8  9 10 11 12 13 14 15 16 17 18 19 20 21 22 23 24'' @
     [newline] @ '' 25 26 27 28 29 30]''"

definition fifty30_str :: string where
  "fifty30_str =
     ''[50. 50. 50. 50. 50. 50. 50. 50. 50. 50. 50. 50. 50. 50. 50. 50. 50. 50.'' @
     [newline] @ '' 50. 50. 50. 50. 50. 50. 50. 50. 50. 50. 50. 50.]''"

definition dec_digit :: "char \<Rightarrow> nat option" where
  "dec_digit c =
     map_of [(CHR ''0'', 0), (CHR ''1'', 1), (CHR ''2'', 2), (CHR ''3'', 3), (CHR ''4'', 4),
             (CHR ''5'', 5), (CHR ''6'', 6), (CHR ''7'', 7), (CHR ''8'', 8), (CHR ''9'', 9)] c"

fun dec_nat :: "nat \<Rightarrow> string \<Rightarrow> nat option" where
  "dec_nat n [] = Some n"
| "dec_nat n (c # cs) = (case dec_digit c of None \<Rightarrow> None | Some d \<Rightarrow> dec_nat (10 * n + d) cs)"

definition lib_half :: py_lib where
  "lib_half =
     \<lparr>around2 = (\<lambda>x. x),
      str_float64 = (\<lambda>x. ''50.0''),
      str_float64_array =
        (\<lambda>xs. if xs = [] then ''[]'' else format_array (map (\<lambda>x. ''50.'') xs)),
      float_of_str = (\<lambda>s. if s = ''50.0'' \<or> s = ''50.'' then Some 50 else None),
      int_of_str = (\<lambda>s. if s = [] then None else map_option int (dec_nat 0 s))\<rparr>"

definition half_file :: string where
  "half_file =
     ''easy'' @ [newline] @
     ''  mAP=50.0'' @ [newline] @
     ''  mP@k'' @ ranks30_str @ '' '' @ fifty30_str @ [newline] @
     ''  mR@k'' @ ranks30_str @ '' '' @ fifty30_str @ [newline]"

definition two_ranks_file :: string where
  "two_ranks_file =
     ''easy'' @ [newline] @
     ''  mAP=50.0'' @ [newline] @
     ''  mP@k[1 5] [50. 50.]'' @ [newline] @
     ''  mR@k[1 5] [50. 50.]'' @ [newline]"

section \<open>Properties\<close>

declare advance.simps [simp del] adjust_loop.simps [simp del]

subsection \<open>Ground-truth subsets\<close>

lemma parse_query_keys: "has_keys g \<Longrightarrow> parse_query g = Inr (easy_of g, medium_of g, hard_of g)"
  by (auto simp: has_keys_def parse_query_def getitem_def easy_of_def medium_of_def hard_of_def)

lemma parse_query_missing:
  "\<not> has_keys g \<Longrightarrow> \<exists>k \<in> {''easy'', ''hard'', ''junk''}. parse_query g = Inl (KeyError k)"
  by (auto simp: has_keys_def parse_query_def getitem_def split: option.splits)

lemma parse_loop_keys:
  "\<forall>g \<in> set gs. has_keys g \<Longrightarrow>
   parse_loop gs (es, ms, hs) =
     Inr (es @ map easy_of gs, ms @ map medium_of gs, hs @ map hard_of gs)"
  by (induction gs arbitrary: es ms hs) (simp_all add: parse_query_keys)

lemma parse_loop_missing:
  "\<exists>g \<in> set gs. \<not> has_keys g \<Longrightarrow>
   \<exists>k \<in> {''easy'', ''hard'', ''junk''}. parse_loop gs (es, ms, hs) = Inl (KeyError k)"
proof (induction gs arbitrary: es ms hs)
  case Nil
  then show ?case by simp
next
  case (Cons g gs)
  show ?case
  proof (cases "has_keys g")
    case True
    with Cons.prems have "\<exists>g \<in> set gs. \<not> has_keys g" by auto
    from Cons.IH [OF this] True show ?thesis by (simp add: parse_query_keys)
  next
    case False
    from parse_query_missing [OF this] show ?thesis by auto
  qed
qed

text \<open>
  Claim C6. For every list of per-query records that each carry \<open>easy\<close>, \<open>hard\<close> and \<open>junk\<close>,
  \<open>ParseEasyMediumHardGroundTruth\<close> returns three lists with one entry per query, in the
  order of the input, and as sets: the easy entry has ok = easy and junk = hard \<union> junk, the
  medium entry has ok = easy \<union> hard and junk = junk, the hard entry has ok = hard and
  junk = junk \<union> easy.
\<close>

theorem ParseEasyMediumHardGroundTruth_subsets:
  assumes "\<forall>g \<in> set ground_truth. has_keys g"
  shows "\<exists>es ms hs. ParseEasyMediumHardGroundTruth ground_truth = Inr (es, ms, hs) \<and>
     length es = length ground_truth \<and> length ms = length ground_truth \<and>
     length hs = length ground_truth \<and>
     (\<forall>i < length ground_truth.
        (let g = ground_truth ! i;
             easy = set (the (labels g ''easy''));
             hard = set (the (labels g ''hard''));
             jnk = set (the (labels g ''junk''))
         in set (ok (es ! i)) = easy \<and> set (junk (es ! i)) = hard \<union> jnk \<and>
            set (ok (ms ! i)) = easy \<union> hard \<and> set (junk (ms ! i)) = jnk \<and>
            set (ok (hs ! i)) = hard \<and> set (junk (hs ! i)) = jnk \<union> easy))"
  using parse_loop_keys [OF assms, of "[]" "[]" "[]"]
  by (auto simp: ParseEasyMediumHardGroundTruth_def Let_def easy_of_def medium_of_def
      hard_of_def ParseGroundTruth_def)

theorem ParseEasyMediumHardGroundTruth_subsets_witness:
  "has_keys full_record \<and>
   (\<exists>es ms hs. ParseEasyMediumHardGroundTruth [full_record] = Inr (es, ms, hs) \<and>
      length es = 1 \<and> length ms = 1 \<and> length hs = 1 \<and>
      set (ok (es ! 0)) = {3, 5} \<and> set (junk (es ! 0)) = {7, 9} \<and>
      set (ok (ms ! 0)) = {3, 5, 7} \<and> set (junk (ms ! 0)) = {9} \<and>
      set (ok (hs ! 0)) = {7} \<and> set (junk (hs ! 0)) = {9, 3, 5})"
proof -
  have k: "has_keys full_record" by (simp add: has_keys_def full_record_def)
  then have "\<forall>g \<in> set [full_record]. has_keys g" by simp
  from ParseEasyMediumHardGroundTruth_subsets [OF this]
  obtain es ms hs where
    r: "ParseEasyMediumHardGroundTruth [full_record] = Inr (es, ms, hs)" and
    l: "length es = length [full_record]" "length ms = length [full_record]"
       "length hs = length [full_record]" and
    p: "\<forall>i < length [full_record].
        (let g = [full_record] ! i;
             easy = set (the (labels g ''easy''));
             hard = set (the (labels g ''hard''));
             jnk = set (the (labels g ''junk''))
         in set (ok (es ! i)) = easy \<and> set (junk (es ! i)) = hard \<union> jnk \<and>
            set (ok (ms ! i)) = easy \<union> hard \<and> set (junk (ms ! i)) = jnk \<and>
            set (ok (hs ! i)) = hard \<and> set (junk (hs ! i)) = jnk \<union> easy)"
    by blast
  from p have "set (ok (es ! 0)) = {3, 5} \<and> set (junk (es ! 0)) = {7, 9} \<and>
      set (ok (ms ! 0)) = {3, 5, 7} \<and> set (junk (ms ! 0)) = {9} \<and>
      set (ok (hs ! 0)) = {7} \<and> set (junk (hs ! 0)) = {9, 3, 5}"
    by (auto simp: Let_def full_record_def)
  with k r l show ?thesis by auto
qed

text \<open>
  Claim C10. If any per-query record passed to \<open>ParseEasyMediumHardGroundTruth\<close> lacks one
  of the keys \<open>easy\<close>, \<open>hard\<close> or \<open>junk\<close>, the function fails with a missing-key error on one
  of these keys; an absent set is not taken as empty.
\<close>

theorem ParseEasyMediumHardGroundTruth_missing_key:
  assumes "\<exists>g \<in> set ground_truth. \<not> has_keys g"
  shows "\<exists>k \<in> {''easy'', ''hard'', ''junk''}.
           ParseEasyMediumHardGroundTruth ground_truth = Inl (KeyError k)"
  using parse_loop_missing [OF assms] by (simp add: ParseEasyMediumHardGroundTruth_def)

theorem ParseEasyMediumHardGroundTruth_missing_key_witness:
  "\<not> has_keys no_hard_record \<and>
   (\<exists>k \<in> {''easy'', ''hard'', ''junk''}.
      ParseEasyMediumHardGroundTruth [full_record, no_hard_record] = Inl (KeyError k))"
proof -
  have k: "\<not> has_keys no_hard_record" by (simp add: has_keys_def no_hard_record_def)
  then have "\<exists>g \<in> set [full_record, no_hard_record]. \<not> has_keys g" by simp
  from k ParseEasyMediumHardGroundTruth_missing_key [OF this] show ?thesis ..
qed

subsection \<open>Rank adjustment\<close>

lemma sorted_filter_takeWhile:
  "sorted ys \<Longrightarrow> filter (\<lambda>y. y < (x::int)) ys = takeWhile (\<lambda>y. y < x) ys"
proof (induction ys)
  case Nil
  then show ?case by simp
next
  case (Cons a ys)
  show ?case
  proof (cases "a < x")
    case True
    with Cons show ?thesis by simp
  next
    case False
    with Cons.prems have "\<forall>y \<in> set ys. \<not> y < x" by auto
    then have "filter (\<lambda>y. y < x) ys = []" by (simp add: filter_empty_conv)
    with False show ?thesis by simp
  qed
qed

lemma num_below_takeWhile:
  "sorted ys \<Longrightarrow> num_below ys x = length (takeWhile (\<lambda>y. y < x) ys)"
  by (simp add: num_below_def sorted_filter_takeWhile)

lemma advance_num_below:
  "sorted (h q) \<Longrightarrow> j \<le> num_below (h q) x \<Longrightarrow> advance h q x j = num_below (h q) x"
proof (induction h q x j rule: advance.induct)
  case (1 h q x j)
  let ?t = "takeWhile (\<lambda>y. y < x) (h q)"
  have nb: "num_below (h q) x = length ?t" using "1.prems"(1) by (rule num_below_takeWhile)
  show ?case
  proof (cases "j < length (h q) \<and> h q ! j < x")
    case True
    have "j \<noteq> length ?t"
    proof
      assume e: "j = length ?t"
      with True have "length ?t < length (h q)" by simp
      from nth_length_takeWhile [OF this] e True show False by simp
    qed
    with "1.prems"(2) nb have "Suc j \<le> num_below (h q) x" by simp
    from "1.IH" [OF True "1.prems"(1) this] True show ?thesis
      by (subst advance.simps) simp
  next
    case False
    have "length ?t \<le> j"
    proof (rule ccontr)
      assume "\<not> length ?t \<le> j"
      then have lt: "j < length ?t" by simp
      then have "?t ! j \<in> set ?t" by simp
      then have "?t ! j < x" by (meson set_takeWhileD)
      moreover have "?t ! j = h q ! j" using lt by (rule takeWhile_nth)
      moreover have "j < length (h q)"
        using lt length_takeWhile_le [of "\<lambda>y. y < x" "h q"] by simp
      ultimately show False using False by simp
    qed
    with "1.prems"(2) nb have "j = num_below (h q) x" by simp
    with False show ?thesis by (subst advance.simps) auto
  qed
qed

lemma num_below_mono: "x \<le> x' \<Longrightarrow> num_below js x \<le> num_below js x'"
proof -
  assume "x \<le> x'"
  then have "filter (\<lambda>y. y < x) js = filter (\<lambda>y. y < x) (filter (\<lambda>y. y < x') js)"
    by (auto intro: filter_cong)
  then have "length (filter (\<lambda>y. y < x) js) \<le> length (filter (\<lambda>y. y < x') js)"
    by (metis length_filter_le)
  then show ?thesis by (simp add: num_below_def)
qed

lemma adjust_loop_frame: "a \<noteq> p \<Longrightarrow> adjust_loop p q i j h a = h a"
proof (induction p q i j h rule: adjust_loop.induct)
  case (1 p q i j h)
  show ?case
  proof (cases "i < length (h p)")
    case True
    from "1.IH" [OF True refl refl "1.prems"] True "1.prems" show ?thesis
      by (subst adjust_loop.simps) (simp add: Let_def fun_upd_def)
  next
    case False
    then show ?thesis by (subst adjust_loop.simps) simp
  qed
qed

lemma adjust_loop_spec:
  "p \<noteq> q \<Longrightarrow> sorted (h q) \<Longrightarrow> sorted (drop i (h p)) \<Longrightarrow>
   \<forall>x \<in> set (drop i (h p)). j \<le> num_below (h q) x \<Longrightarrow>
   adjust_loop p q i j h p =
     take i (h p) @ map (\<lambda>x. x - int (num_below (h q) x)) (drop i (h p))"
proof (induction p q i j h rule: adjust_loop.induct)
  case (1 p q i j h)
  show ?case
  proof (cases "i < length (h p)")
    case False
    then show ?thesis by (subst adjust_loop.simps) simp
  next
    case True
    define x where "x = h p ! i"
    define j' where "j' = advance h q x j"
    define h' where "h' = h(p := (h p)[i := x - int j'])"
    have dr: "drop i (h p) = x # drop (Suc i) (h p)"
      using True by (simp add: x_def Cons_nth_drop_Suc)
    have "j \<le> num_below (h q) x" using "1.prems"(4) dr by simp
    with "1.prems"(2) have j': "j' = num_below (h q) x"
      unfolding j'_def by (rule advance_num_below)
    have hq: "h' q = h q" using "1.prems"(1) by (simp add: h'_def)
    have hp: "h' p = (h p)[i := x - int j']" by (simp add: h'_def)
    have dr': "drop (Suc i) (h' p) = drop (Suc i) (h p)" by (simp add: hp)
    have tk': "take (Suc i) (h' p) = take i (h p) @ [x - int j']"
      using True by (simp add: hp take_Suc_conv_app_nth)
    have s': "sorted (drop (Suc i) (h' p))" using "1.prems"(3) dr dr' by simp
    have b': "\<forall>y \<in> set (drop (Suc i) (h' p)). j' \<le> num_below (h' q) y"
    proof
      fix y assume "y \<in> set (drop (Suc i) (h' p))"
      then have "y \<in> set (drop (Suc i) (h p))" by (simp add: dr')
      with "1.prems"(3) dr have "x \<le> y" by simp
      then show "j' \<le> num_below (h' q) y" unfolding j' hq by (rule num_below_mono)
    qed
    have sq': "sorted (h' q)" using "1.prems"(2) hq by simp
    have "adjust_loop p q (Suc i) j' h' p =
        take (Suc i) (h' p) @ map (\<lambda>x. x - int (num_below (h' q) x)) (drop (Suc i) (h' p))"
      using "1.IH" [OF True x_def [unfolded x_def] j'_def [unfolded x_def] "1.prems"(1)]
      using sq' s' b' unfolding h'_def j'_def x_def by blast
    then have "adjust_loop p q (Suc i) j' h' p =
        take i (h p) @ map (\<lambda>x. x - int (num_below (h q) x)) (drop i (h p))"
      by (simp add: tk' dr' hq dr j')
    moreover have "adjust_loop p q i j h = adjust_loop p q (Suc i) j' h'"
      using True by (subst adjust_loop.simps) (simp add: Let_def h'_def j'_def x_def)
    ultimately show ?thesis by simp
  qed
qed

lemma adjusted_sorted:
  "p \<noteq> q \<Longrightarrow> h q \<noteq> [] \<Longrightarrow> sorted (h p) \<Longrightarrow> sorted (h q) \<Longrightarrow>
   adjusted h p q = map (\<lambda>x. x - int (num_below (h q) x)) (h p)"
  using adjust_loop_spec [of p q h 0 0]
  by (simp add: adjusted_def AdjustPositiveRanks_def)

lemma adjusted_no_junk: "h q = [] \<Longrightarrow> adjusted h p q = h p"
  by (simp add: adjusted_def AdjustPositiveRanks_def)

text \<open>
  Claim C3. For sorted, strictly increasing, disjoint integer sequences \<open>positive_ranks\<close> and
  \<open>junk_ranks\<close>, the sequence that \<open>AdjustPositiveRanks\<close> returns has the length of
  \<open>positive_ranks\<close>, and its element \<open>i\<close> is \<open>positive_ranks[i]\<close> minus the number of junk
  ranks strictly below \<open>positive_ranks[i]\<close>; with no junk ranks it is \<open>positive_ranks\<close>
  unchanged; and \<open>positive_ranks = [0, 2]\<close> with \<open>junk_ranks = [1]\<close> gives \<open>[0, 1]\<close>.
\<close>

theorem AdjustPositiveRanks_result:
  assumes "sorted_wrt (<) (h p)" and "sorted_wrt (<) (h q)" and "set (h p) \<inter> set (h q) = {}"
  shows "length (adjusted h p q) = length (h p) \<and>
         (\<forall>i < length (h p). adjusted h p q ! i = h p ! i - int (num_below (h q) (h p ! i))) \<and>
         (h q = [] \<longrightarrow> adjusted h p q = h p) \<and>
         adjusted ex_store 0 1 = [0, 1]"
proof -
  have ex: "adjusted ex_store 0 1 = [0, 1]"
    by (simp add: adjusted_def AdjustPositiveRanks_def ex_store_def adjust_loop.simps
        advance.simps)
  have main: "length (adjusted h p q) = length (h p) \<and>
         (\<forall>i < length (h p). adjusted h p q ! i = h p ! i - int (num_below (h q) (h p ! i))) \<and>
         (h q = [] \<longrightarrow> adjusted h p q = h p)"
  proof (cases "h q = []")
    case True
    then show ?thesis by (simp add: adjusted_no_junk num_below_def)
  next
    case False
    with assms(3) have ne: "p \<noteq> q" by auto
    have "sorted (h p)" and "sorted (h q)"
      using assms(1,2) by (simp_all add: strict_sorted_iff)
    with ne False show ?thesis by (simp add: adjusted_sorted)
  qed
  from main ex show ?thesis by simp
qed

theorem AdjustPositiveRanks_result_witness:
  "sorted_wrt (<) (ex_store 0) \<and> sorted_wrt (<) (ex_store 1) \<and>
   set (ex_store 0) \<inter> set (ex_store 1) = {} \<and>
   length (adjusted ex_store 0 1) = 2 \<and>
   adjusted ex_store 0 1 ! 0 = 0 \<and> adjusted ex_store 0 1 ! 1 = 1"
proof -
  have a: "sorted_wrt (<) (ex_store 0)" and b: "sorted_wrt (<) (ex_store 1)"
    and c: "set (ex_store 0) \<inter> set (ex_store 1) = {}"
    by (simp_all add: ex_store_def)
  from AdjustPositiveRanks_result [OF a b c]
  have l: "length (adjusted ex_store 0 1) = length (ex_store 0)"
    and n: "\<forall>i < length (ex_store 0).
        adjusted ex_store 0 1 ! i = ex_store 0 ! i - int (num_below (ex_store 1) (ex_store 0 ! i))"
    by blast+
  from n have "adjusted ex_store 0 1 ! 0 = 0" and "adjusted ex_store 0 1 ! 1 = 1"
    by (simp_all add: ex_store_def num_below_def)
  with a b c l show ?thesis by (simp add: ex_store_def)
qed

text \<open>
  Claim C8, as stated: \<open>AdjustPositiveRanks\<close> leaves the \<open>positive_ranks\<close> array it was given
  unchanged and returns a fresh array. At \<open>positive_ranks = [0, 2]\<close>, \<open>junk_ranks = [1]\<close> the
  array at the address of \<open>positive_ranks\<close> is changed, and the address returned is that
  very address.
\<close>

theorem AdjustPositiveRanks_mutates_input:
  "fst (AdjustPositiveRanks ex_store 0 1) 0 \<noteq> ex_store 0 \<and>
   snd (AdjustPositiveRanks ex_store 0 1) = 0"
  by (simp add: AdjustPositiveRanks_def ex_store_def adjust_loop.simps advance.simps)

text \<open>
  Claim C8, amended. \<open>AdjustPositiveRanks\<close> returns the array object it was given as
  \<open>positive_ranks\<close>; it changes no other array; and when \<open>junk_ranks\<close> is empty it changes
  no array at all.
\<close>

theorem AdjustPositiveRanks_frame:
  "snd (AdjustPositiveRanks h p q) = p \<and>
   (\<forall>a. a \<noteq> p \<longrightarrow> fst (AdjustPositiveRanks h p q) a = h a) \<and>
   (h q = [] \<longrightarrow> fst (AdjustPositiveRanks h p q) = h)"
  by (simp add: AdjustPositiveRanks_def adjust_loop_frame)

theorem AdjustPositiveRanks_frame_witness:
  "snd (AdjustPositiveRanks ex_store 0 1) = 0 \<and>
   fst (AdjustPositiveRanks ex_store 0 1) 1 = ex_store 1 \<and>
   ex_store 2 = [] \<and> fst (AdjustPositiveRanks ex_store 0 2) = ex_store"
proof -
  have e: "ex_store 2 = []" by (simp add: ex_store_def)
  from AdjustPositiveRanks_frame [of ex_store 0 1]
  have "snd (AdjustPositiveRanks ex_store 0 1) = 0"
    and "fst (AdjustPositiveRanks ex_store 0 1) 1 = ex_store 1" by simp_all
  moreover from AdjustPositiveRanks_frame [of ex_store 0 2] e
  have "fst (AdjustPositiveRanks ex_store 0 2) = ex_store" by simp
  ultimately show ?thesis using e by simp
qed

subsection \<open>Average precision\<close>











text \<open>Two known doubles, as a check of the rounding: \<open>0.1\<close> is
  \<open>3602879701896397 / 2^55\<close> (above one tenth) and \<open>1/3\<close> rounds to
  \<open>6004799503160661 / 2^54\<close> (below one third).\<close>

lemma b64_known_doubles:
  "b64 (1 / 10) = 3602879701896397 / 36028797018963968"
  "b64 (1 / 3) = 6004799503160661 / 18014398509481984"
  by (simp_all add: b64_def round_half_even_def pow2_def Let_def eval_nat_numeral)





subsection \<open>Precision and recall at fixed ranks\<close>






subsection \<open>Aggregate metrics\<close>

lemma metrics_loop_result:
  "length gts = length rows \<Longrightarrow>
   metrics_loop n d rows gts acc =
     Inr \<lparr>mean_average_precision =
            foldl np_add (mean_average_precision acc)
              (map (\<lambda>(row, gt). query_ap n row gt) (valid_queries rows gts)),
          mean_precisions =
            foldl (map2 np_add) (mean_precisions acc)
              (map (\<lambda>(row, gt). query_precisions n d row gt) (valid_queries rows gts)),
          mean_recalls =
            foldl (map2 np_add) (mean_recalls acc)
              (map (\<lambda>(row, gt). query_recalls n d row gt) (valid_queries rows gts)),
          average_precisions = average_precisions acc @
            map (\<lambda>(row, gt). if ok gt = [] then NaN else query_ap n row gt) (zip rows gts),
          precisions = precisions acc @
            map (\<lambda>(row, gt). if ok gt = [] then replicate (length d) NaN
                              else query_precisions n d row gt) (zip rows gts),
          recalls = recalls acc @
            map (\<lambda>(row, gt). if ok gt = [] then replicate (length d) NaN
                              else query_recalls n d row gt) (zip rows gts),
          num_empty_gt_queries =
            num_empty_gt_queries acc + length (filter (\<lambda>gt. ok gt = []) gts)\<rparr>"
proof (induction rows arbitrary: gts acc)
  case Nil
  then show ?case by (simp add: valid_queries_def)
next
  case (Cons row rows)
  then obtain g gs where g: "gts = g # gs" and l: "length gs = length rows"
    by (cases gts) simp_all
  show ?case
  proof (cases "ok g = []")
    case True
    then show ?thesis
      unfolding g by (simp add: Cons.IH [OF l] valid_queries_def)
  next
    case False
    then show ?thesis
      unfolding g
      by (simp add: Cons.IH [OF l] valid_queries_def Let_def query_ap_def
          query_precisions_def query_recalls_def)
  qed
qed

lemma num_valid_pos:
  assumes "length gts = length rows" and "\<exists>g \<in> set gts. ok g \<noteq> []"
  shows "0 < num_valid rows gts"
proof -
  from assms(2) obtain g where "g \<in> set gts" and "\<not> ok g = []" by blast
  then have "length (filter (\<lambda>gt. ok gt = []) gts) < length gts"
    by (rule length_filter_less)
  with assms(1) show ?thesis by (simp add: num_valid_def)
qed

text \<open>
  Claim C2, amended. For a Q-by-N ranking matrix, a ground-truth list of length Q of which at
  least one query has a non-empty \<open>ok\<close> set, and a desired rank list with maximum at most N,
  \<open>ComputeMetrics\<close> returns: per-query AP, precisions and recalls that are NaN for every query
  whose \<open>ok\<close> set is empty; and means equal to the sums of the per-query values over the
  queries with a non-empty \<open>ok\<close> set, divided by Q minus the number of empty queries.
\<close>

theorem ComputeMetrics_means:
  assumes "wf_matrix m" and "length gts = length (rows_of m)"
    and "d \<noteq> []" and "last (sort d) \<le> int (num_cols m)"
    and "\<exists>g \<in> set gts. ok g \<noteq> []"
  shows "ComputeMetrics m gts d =
     Inr (np_div_int (np_sum (map (\<lambda>(row, gt). query_ap (num_cols m) row gt)
                                (valid_queries (rows_of m) gts))) (num_valid (rows_of m) gts),
          map (\<lambda>x. np_div_int x (num_valid (rows_of m) gts))
            (np_vec_sum (length d) (map (\<lambda>(row, gt). query_precisions (num_cols m) d row gt)
                                      (valid_queries (rows_of m) gts))),
          map (\<lambda>x. np_div_int x (num_valid (rows_of m) gts))
            (np_vec_sum (length d) (map (\<lambda>(row, gt). query_recalls (num_cols m) d row gt)
                                      (valid_queries (rows_of m) gts))),
          map (\<lambda>(row, gt). if ok gt = [] then NaN else query_ap (num_cols m) row gt)
            (zip (rows_of m) gts),
          map (\<lambda>(row, gt). if ok gt = [] then replicate (length d) NaN
                            else query_precisions (num_cols m) d row gt) (zip (rows_of m) gts),
          map (\<lambda>(row, gt). if ok gt = [] then replicate (length d) NaN
                            else query_recalls (num_cols m) d row gt) (zip (rows_of m) gts))"
proof -
  define nv where "nv = num_valid (rows_of m) gts"
  from num_valid_pos [OF assms(2,5)] have nv0: "nv \<noteq> 0" by (simp add: nv_def)
  have nv': "int (length (rows_of m)) - int (length (filter (\<lambda>gt. ok gt = []) gts)) = nv"
    by (simp add: nv_def num_valid_def)
  note loop = metrics_loop_result [OF assms(2), of "num_cols m" d "init_acc (length d)"]
  have "ComputeMetrics m gts d =
     (case metrics_loop (num_cols m) d (rows_of m) gts (init_acc (length d)) of
        Inl e \<Rightarrow> Inl e
      | Inr acc \<Rightarrow>
          (let num_valid_queries = int (length (rows_of m)) - int (num_empty_gt_queries acc)
           in if num_valid_queries = 0 then Inl ZeroDivisionError
              else Inr (np_div_int (mean_average_precision acc) num_valid_queries,
                        map (\<lambda>x. np_div_int x num_valid_queries) (mean_precisions acc),
                        map (\<lambda>x. np_div_int x num_valid_queries) (mean_recalls acc),
                        average_precisions acc, precisions acc, recalls acc)))"
    using assms(3,4) by (simp add: ComputeMetrics_def Let_def)
  also have "\<dots> = Inr (np_div_int (np_sum (map (\<lambda>(row, gt). query_ap (num_cols m) row gt)
                                (valid_queries (rows_of m) gts))) nv,
          map (\<lambda>x. np_div_int x nv)
            (np_vec_sum (length d) (map (\<lambda>(row, gt). query_precisions (num_cols m) d row gt)
                                      (valid_queries (rows_of m) gts))),
          map (\<lambda>x. np_div_int x nv)
            (np_vec_sum (length d) (map (\<lambda>(row, gt). query_recalls (num_cols m) d row gt)
                                      (valid_queries (rows_of m) gts))),
          map (\<lambda>(row, gt). if ok gt = [] then NaN else query_ap (num_cols m) row gt)
            (zip (rows_of m) gts),
          map (\<lambda>(row, gt). if ok gt = [] then replicate (length d) NaN
                            else query_precisions (num_cols m) d row gt) (zip (rows_of m) gts),
          map (\<lambda>(row, gt). if ok gt = [] then replicate (length d) NaN
                            else query_recalls (num_cols m) d row gt) (zip (rows_of m) gts))"
    unfolding loop using nv0
    by (simp add: Let_def init_acc_def nv' np_sum_def np_vec_sum_def)
  finally show ?thesis unfolding nv_def .
qed

lemma positions_example:
  "positions 3 [2, 0, 1] [2] = [0]" "positions 3 [2, 0, 1] [] = []"
  "positions 3 [1, 2, 0] [0] = [2]" "positions 3 [1, 2, 0] [1] = [0]"
  by (simp_all add: positions_def upt_rec numeral_3_eq_3)

lemma query_ranks_example:
  "query_ranks 3 [2, 0, 1] \<lparr>ok = [2], junk = []\<rparr> = [0]"
  "query_ranks 3 [1, 2, 0] \<lparr>ok = [0], junk = [1]\<rparr> = [1]"
  by (simp_all add: query_ranks_def positions_example adjusted_def AdjustPositiveRanks_def
      fresh_store_def adjust_loop.simps advance.simps)

lemma query_values_example:
  "query_ap 3 [2, 0, 1] \<lparr>ok = [2], junk = []\<rparr> = Fin 1"
  "query_ap 3 [1, 2, 0] \<lparr>ok = [0], junk = [1]\<rparr> = Fin (1 / 4)"
  "query_precisions 3 [1, 2] [2, 0, 1] \<lparr>ok = [2], junk = []\<rparr> = [Fin 1, Fin 1]"
  "query_precisions 3 [1, 2] [1, 2, 0] \<lparr>ok = [0], junk = [1]\<rparr> = [Fin 0, Fin (1 / 2)]"
  "query_recalls 3 [1, 2] [2, 0, 1] \<lparr>ok = [2], junk = []\<rparr> = [Fin 1, Fin 1]"
  "query_recalls 3 [1, 2] [1, 2, 0] \<lparr>ok = [0], junk = [1]\<rparr> = [Fin 0, Fin 1]"
  by (simp_all add: query_ap_def query_precisions_def query_recalls_def query_ranks_example
      ComputeAveragePrecision_def ComputePRAtRanks_def int_truediv_def count_le_def)

theorem ComputeMetrics_means_witness:
  "wf_matrix m3 \<and> length gt3 = length (rows_of m3) \<and>
   last (sort [1, 2 :: int]) \<le> int (num_cols m3) \<and> ok (gt3 ! 0) \<noteq> [] \<and>
   ComputeMetrics m3 gt3 [1, 2] =
   Inr (Fin (5 / 8), [Fin (1 / 2), Fin (3 / 4)], [Fin (1 / 2), Fin 1],
        [Fin 1, NaN, Fin (1 / 4)],
        [[Fin 1, Fin 1], [NaN, NaN], [Fin 0, Fin (1 / 2)]],
        [[Fin 1, Fin 1], [NaN, NaN], [Fin 0, Fin 1]])"
proof -
  have a: "wf_matrix m3" by (simp add: wf_matrix_def m3_def)
  have b: "length gt3 = length (rows_of m3)" by (simp add: gt3_def m3_def)
  have c: "[1, 2 :: int] \<noteq> []" by simp
  have d: "last (sort [1, 2 :: int]) \<le> int (num_cols m3)" by (simp add: m3_def)
  have e: "\<exists>g \<in> set gt3. ok g \<noteq> []" by (simp add: gt3_def)
  have f: "ok (gt3 ! 0) \<noteq> []" by (simp add: gt3_def)
  have "ComputeMetrics m3 gt3 [1, 2] =
   Inr (Fin (5 / 8), [Fin (1 / 2), Fin (3 / 4)], [Fin (1 / 2), Fin 1],
        [Fin 1, NaN, Fin (1 / 4)],
        [[Fin 1, Fin 1], [NaN, NaN], [Fin 0, Fin (1 / 2)]],
        [[Fin 1, Fin 1], [NaN, NaN], [Fin 0, Fin 1]])"
    unfolding ComputeMetrics_means [OF a b c d e]
    by (simp add: m3_def gt3_def valid_queries_def num_valid_def np_sum_def np_vec_sum_def
        query_values_example)
  with a b d f show ?thesis by simp
qed

lemma ComputeMetrics_all_empty:
  assumes "length gts = length (rows_of m)"
    and "d \<noteq> []" and "last (sort d) \<le> int (num_cols m)"
    and "\<forall>g \<in> set gts. ok g = []"
  shows "ComputeMetrics m gts d = Inl ZeroDivisionError"
proof -
  from assms(4) have "filter (\<lambda>gt. ok gt = []) gts = gts" by simp
  then have "length (filter (\<lambda>gt. ok gt = []) gts) = length (rows_of m)"
    using assms(1) by simp
  with assms(2,3) show ?thesis
    by (simp add: ComputeMetrics_def Let_def metrics_loop_result [OF assms(1)] init_acc_def)
qed

text \<open>
  Claim C2, as stated, promises aggregate means for every ground-truth list of length Q. With
  one query whose \<open>ok\<close> set is empty no means are returned: the division raises.
\<close>

theorem ComputeMetrics_no_valid_query:
  "wf_matrix m1 \<and> last (sort [1 :: int]) \<le> int (num_cols m1) \<and>
   ComputeMetrics m1 [\<lparr>ok = [], junk = [0]\<rparr>] [1] = Inl ZeroDivisionError"
proof -
  have "ComputeMetrics m1 [\<lparr>ok = [], junk = [0]\<rparr>] [1] = Inl ZeroDivisionError"
    by (rule ComputeMetrics_all_empty) (simp_all add: m1_def)
  then show ?thesis by (simp add: wf_matrix_def m1_def)
qed

text \<open>
  Claim C9. When the \<open>ok\<close> set of every query is empty and the desired-rank precondition
  holds, \<open>ComputeMetrics\<close> fails with a division-by-zero error; it returns no means.
\<close>

theorem ComputeMetrics_zero_division:
  assumes "length gts = length (rows_of m)"
    and "d \<noteq> []" and "last (sort d) \<le> int (num_cols m)"
    and "\<forall>g \<in> set gts. ok g = []"
  shows "ComputeMetrics m gts d = Inl ZeroDivisionError"
  using assms by (rule ComputeMetrics_all_empty)

theorem ComputeMetrics_zero_division_witness:
  "length gt_empty = length (rows_of m3) \<and> last (sort [1, 2 :: int]) \<le> int (num_cols m3) \<and>
   ok (gt_empty ! 0) = [] \<and> ok (gt_empty ! 1) = [] \<and> ok (gt_empty ! 2) = [] \<and>
   ComputeMetrics m3 gt_empty [1, 2] = Inl ZeroDivisionError"
proof -
  have a: "length gt_empty = length (rows_of m3)" by (simp add: gt_empty_def m3_def)
  have b: "[1, 2 :: int] \<noteq> []" by simp
  have c: "last (sort [1, 2 :: int]) \<le> int (num_cols m3)" by (simp add: m3_def)
  have d: "\<forall>g \<in> set gt_empty. ok g = []" by (simp add: gt_empty_def)
  from ComputeMetrics_zero_division [OF a b c d] a c show ?thesis
    by (simp add: gt_empty_def)
qed

subsection \<open>The metrics file\<close>

declare str_nat.simps [simp del]

lemma split_on_not_Nil: "split_on c s \<noteq> []"
  by (induction s) (auto split: list.splits)

lemma split_on_no_sep: "c \<notin> set s \<Longrightarrow> split_on c s = [s]"
  by (induction s) auto

lemma split_on_first: "c \<notin> set x \<Longrightarrow> split_on c (x @ c # rest) = x # split_on c rest"
  by (induction x) (auto split: list.splits simp: split_on_not_Nil)

lemma file_lines_first:
  assumes "newline \<notin> set x"
  shows "file_lines (x @ newline # rest) = x # file_lines rest"
proof -
  have ne: "split_on newline rest \<noteq> []" by (rule split_on_not_Nil)
  then show ?thesis
    by (simp add: file_lines_def Let_def split_on_first [OF assms])
qed

lemma set_rstrip: "set (rstrip s) \<subseteq> set s"
  by (auto simp: rstrip_def dest: set_dropWhileD)

lemma rstrip_append:
  assumes "p \<noteq> []" and "\<not> is_space (last p)"
  shows "rstrip (p @ u) = p @ rstrip u"
proof (cases "\<forall>c \<in> set u. is_space c")
  case True
  then have a: "dropWhile is_space (rev u) = []" by simp
  from assms have b: "dropWhile is_space (rev p) = rev p"
    by (cases p rule: rev_cases) simp_all
  from True have "dropWhile is_space (rev u @ rev p) = dropWhile is_space (rev p)"
    by (intro dropWhile_append2) simp
  with a b show ?thesis by (simp add: rstrip_def)
next
  case False
  then obtain c where "c \<in> set (rev u)" and "\<not> is_space c" by auto
  then have "dropWhile is_space (rev u @ rev p) = dropWhile is_space (rev u) @ rev p"
    by (rule dropWhile_append1)
  then show ?thesis by (simp add: rstrip_def)
qed

lemma ParsePrScores_no_bracket:
  assumes "CHR ''['' \<notin> set w"
  shows "ParsePrScores L (''  mP@k['' @ w) n = Inl IndexError"
  using split_on_no_sep [OF assms]
  by (simp add: ParsePrScores_def ParseSpaceSeparatedStringsInBrackets_def startswith_def)

lemma read_blocks_bad_scores:
  assumes "\<And>n. ParsePrScores L line2 n = Inl IndexError"
  shows "\<exists>e. read_blocks L (protocol # line1 # line2 # line3 # rest) a r p q s = Inl e"
  by (simp add: Let_def assms split: option.splits sum.splits)

lemma str_nat_no_bracket: "CHR ''['' \<notin> set (str_nat n)"
proof (induction n rule: str_nat.induct)
  case (1 n)
  have d: "''0123456789'' ! k \<noteq> CHR ''[''" if "k < 10" for k
  proof -
    from that have "''0123456789'' ! k \<in> set ''0123456789''" by (intro nth_mem) simp
    then show ?thesis by auto
  qed
  show ?case
  proof (cases "n < 10")
    case True
    then show ?thesis using d [of n] by (subst str_nat.simps) auto
  next
    case False
    with 1 have "CHR ''['' \<notin> set (str_nat (n div 10))" by simp
    moreover have "''0123456789'' ! (n mod 10) \<noteq> CHR ''[''" by (rule d) simp
    ultimately show ?thesis using False by (subst str_nat.simps) auto
  qed
qed

lemma fmt_no_bracket: "CHR ''['' \<notin> set (rjust w (str_int x))"
  by (simp add: rjust_def str_int_def str_nat_no_bracket)

lemma extend_line_no_bracket:
  assumes "extend_line s line word = (s', line')"
    and "CHR ''['' \<notin> set s" and "CHR ''['' \<notin> set line" and "CHR ''['' \<notin> set word"
  shows "CHR ''['' \<notin> set s' \<and> CHR ''['' \<notin> set line'"
  using assms set_rstrip [of line]
  by (auto simp: extend_line_def newline_def split: if_splits)

lemma format_row_no_bracket:
  assumes "format_row entries s line = (s', line')"
    and "\<forall>e \<in> set entries. CHR ''['' \<notin> set e"
    and "CHR ''['' \<notin> set s" and "CHR ''['' \<notin> set line"
  shows "CHR ''['' \<notin> set s' \<and> CHR ''['' \<notin> set line'"
  using assms
proof (induction entries s line rule: format_row.induct)
  case (1 s line)
  then show ?case by simp
next
  case (2 word s line)
  then show ?case using extend_line_no_bracket [of s line word s' line'] by simp
next
  case (3 word v va s line)
  obtain s1 line1 where e: "extend_line s line word = (s1, line1)" by (cases "extend_line s line word")
  with "3.prems" have a: "CHR ''['' \<notin> set s1 \<and> CHR ''['' \<notin> set line1"
    using extend_line_no_bracket [of s line word s1 line1] by simp
  from e "3.prems"(1) have f: "format_row (v # va) s1 (line1 @ '' '') = (s', line')" by simp
  have "CHR ''['' \<notin> set (line1 @ '' '')" using a by simp
  with "3.IH" [OF e [symmetric] f] "3.prems"(2) a show ?case by simp
qed

lemma format_array_bracket:
  assumes "\<forall>e \<in> set entries. CHR ''['' \<notin> set e"
  shows "\<exists>t. format_array entries = CHR ''['' # t \<and> CHR ''['' \<notin> set t"
proof -
  obtain s line where f: "format_row entries [] '' '' = (s, line)"
    by (cases "format_row entries [] '' ''")
  with assms have "CHR ''['' \<notin> set s \<and> CHR ''['' \<notin> set line"
    using format_row_no_bracket [of entries "[]" "'' ''" s line] by simp
  then have "CHR ''['' \<notin> set (drop 1 (s @ line) @ '']'')"
    by (auto dest: in_set_dropD)
  then show ?thesis using f by (simp add: format_array_def)
qed

lemma np_int_array_str_bracket:
  "\<exists>t. np_int_array_str a = CHR ''['' # t \<and> CHR ''['' \<notin> set t"
proof (cases "a = []")
  case True
  then show ?thesis by (simp add: np_int_array_str_def)
next
  case False
  then show ?thesis
    unfolding np_int_array_str_def Let_def
    by (simp only: if_False) (rule format_array_bracket, auto simp: fmt_no_bracket)
qed

lemma map_of_key: "k \<in> fst ` set A \<Longrightarrow> \<exists>a. map_of A k = Some a"
  using map_of_eq_None_iff [of A k] by (cases "map_of A k") auto

lemma write_blocks_ok:
  assumes "\<forall>k \<in> set ks. k \<in> fst ` set A \<and> k \<in> fst ` set P \<and> k \<in> fst ` set R"
  shows "\<exists>c. write_blocks L A P R ranks ks = Inr c"
  using assms
proof (induction ks)
  case Nil
  then show ?case by simp
next
  case (Cons k ks)
  then obtain c where c: "write_blocks L A P R ranks ks = Inr c" by auto
  from Cons.prems obtain a p r where
    "map_of A k = Some a" "map_of P k = Some p" "map_of R k = Some r"
    using map_of_key [of k A] map_of_key [of k P] map_of_key [of k R] by auto
  with c show ?case by simp
qed

lemma write_blocks_first:
  assumes "\<forall>k \<in> set (k0 # ks). k \<in> fst ` set A \<and> k \<in> fst ` set P \<and> k \<in> fst ` set R"
  shows "\<exists>a p r rest.
           write_blocks L A P R ranks (k0 # ks) = Inr (format_block L k0 a p r ranks @ rest)"
proof -
  from assms obtain c where c: "write_blocks L A P R ranks ks = Inr c"
    using write_blocks_ok [of ks A P R L ranks] by auto
  from assms obtain a p r where
    "map_of A k0 = Some a" "map_of P k0 = Some p" "map_of R k0 = Some r"
    using map_of_key [of k0 A] map_of_key [of k0 P] map_of_key [of k0 R] by auto
  with c have "write_blocks L A P R ranks (k0 # ks) = Inr (format_block L k0 a p r ranks @ c)"
    by simp
  then show ?thesis by blast
qed

lemma ReadMetricsFile_wrapped:
  assumes k: "newline \<notin> set k" and a: "newline \<notin> set a"
    and u: "newline \<notin> set u" "CHR ''['' \<notin> set u"
  shows "\<exists>e. ReadMetricsFile L
           (k @ [newline] @ ''  mAP='' @ a @ [newline] @ ''  mP@k'' @ (CHR ''['' # u @ newline # v)
              @ rest) = Inl e"
proof -
  let ?l1 = "''  mAP='' @ a" and ?l2 = "''  mP@k['' @ u"
  let ?content = "k @ [newline] @ ''  mAP='' @ a @ [newline] @ ''  mP@k'' @
      (CHR ''['' # u @ newline # v) @ rest"
  have n1: "newline \<notin> set ?l1" using a by (simp add: newline_def)
  have n2: "newline \<notin> set ?l2" using u by (simp add: newline_def)
  have c: "?content = k @ newline # (?l1 @ newline # (?l2 @ newline # (v @ rest)))" by simp
  have "file_lines ?content = k # ?l1 # ?l2 # file_lines (v @ rest)"
    unfolding c by (simp only: file_lines_first [OF k] file_lines_first [OF n1]
        file_lines_first [OF n2])
  moreover have "rstrip ?l2 = ''  mP@k['' @ rstrip u"
    by (rule rstrip_append) (simp_all add: is_space_def)
  ultimately have lines: "map rstrip (file_lines ?content) =
      rstrip k # rstrip ?l1 # (''  mP@k['' @ rstrip u) # map rstrip (file_lines (v @ rest))"
    by simp
  have bad: "ParsePrScores L (''  mP@k['' @ rstrip u) n = Inl IndexError" for n
    using u(2) set_rstrip [of u] by (intro ParsePrScores_no_bracket) auto
  show ?thesis
  proof (cases "length (map rstrip (file_lines ?content)) mod 4 = 0")
    case False
    then show ?thesis by (simp add: ReadMetricsFile_def Let_def)
  next
    case True
    then have "map rstrip (file_lines (v @ rest)) \<noteq> []"
      unfolding lines by auto
    then obtain l3 more where m: "map rstrip (file_lines (v @ rest)) = l3 # more"
      by (cases "map rstrip (file_lines (v @ rest))") auto
    from read_blocks_bad_scores [of L "''  mP@k['' @ rstrip u", OF bad]
    obtain e where "read_blocks L (rstrip k # rstrip ?l1 # (''  mP@k['' @ rstrip u) # l3 # more)
        [] [] [] [] {} = Inl e"
      by blast
    with True show ?thesis
      unfolding ReadMetricsFile_def Let_def lines m by auto
  qed
qed

lemma str_nat_numeral:
  "str_nat 0 = ''0''"
  "str_nat 1 = ''1''"
  "str_nat (Suc 0) = ''1''"
  "str_nat (numeral k) =
     (if numeral k < (10 :: nat) then [''0123456789'' ! numeral k]
      else str_nat (numeral k div 10) @ [''0123456789'' ! (numeral k mod 10)])"
  by (subst str_nat.simps, simp)+

lemma ranks30_rendering: "np_int_array_str ranks30 = ranks30_str"
  by (simp add: np_int_array_str_def ranks30_def ranks30_str_def format_array_def extend_line_def
      rjust_def str_int_def str_nat_numeral rstrip_def is_space_def newline_def Let_def)

text \<open>
  Claim C5. Writing valid metrics with at least one protocol by \<open>SaveMetricsFile\<close> and
  reading the file by \<open>ReadMetricsFile\<close> succeeds and gives back the protocols, the rank list
  and the values up to the rounding to two decimals. The code breaks this whenever NumPy
  prints the rank array over more than one line (from 25 two-digit ranks on): the file is
  written, and reading it raises an error, whatever the scores are and however the
  floating-point values are printed and parsed. The line that starts with \<open>mP@k[\<close> then ends
  inside the rank list, and \<open>_ParsePrScores\<close> finds no second bracket on it.
\<close>

theorem SaveMetricsFile_wrapped_ranks_unreadable:
  assumes "mean_ap_dict \<noteq> []"
    and "fst ` set mean_ap_dict \<subseteq> fst ` set mean_precisions_dict"
    and "fst ` set mean_ap_dict \<subseteq> fst ` set mean_recalls_dict"
    and "\<forall>k \<in> fst ` set mean_ap_dict. newline \<notin> set k"
    and "\<forall>x. newline \<notin> set (str_float64 L x)"
    and "newline \<in> set (np_int_array_str pr_ranks)"
  shows "\<exists>content e.
           SaveMetricsFile L mean_ap_dict mean_precisions_dict mean_recalls_dict pr_ranks =
             Inr content \<and>
           ReadMetricsFile L content = Inl e"
proof -
  define keys where "keys = sort (remdups (map fst mean_ap_dict))"
  have ks: "set keys = fst ` set mean_ap_dict" by (simp add: keys_def)
  with assms(1) have "keys \<noteq> []" by (cases mean_ap_dict) auto
  then obtain k0 ks' where keys: "keys = k0 # ks'" by (cases keys) auto
  have "\<forall>k \<in> set (k0 # ks'). k \<in> fst ` set mean_ap_dict \<and>
      k \<in> fst ` set mean_precisions_dict \<and> k \<in> fst ` set mean_recalls_dict"
    using ks assms(2,3) unfolding keys by blast
  from write_blocks_first [OF this]
  obtain a p r rest where w: "write_blocks L mean_ap_dict mean_precisions_dict mean_recalls_dict
      pr_ranks (k0 # ks') = Inr (format_block L k0 a p r pr_ranks @ rest)"
    by blast
  from ks keys have "k0 \<in> fst ` set mean_ap_dict" by auto
  with assms(4) have k0: "newline \<notin> set k0" by blast
  obtain t where t: "np_int_array_str pr_ranks = CHR ''['' # t" and tb: "CHR ''['' \<notin> set t"
    using np_int_array_str_bracket by blast
  from assms(6) t have "newline \<in> set t" by (auto simp: newline_def)
  then obtain u v where uv: "t = u @ newline # v" and un: "newline \<notin> set u"
    by (auto dest: split_list_first)
  from tb uv have ub: "CHR ''['' \<notin> set u" by simp
  define tail where "tail = '' '' @
      str_float64_array L (map (\<lambda>x. around2 L (b64 (x * 100))) p) @ [newline] @
      ''  mR@k'' @ np_int_array_str pr_ranks @ '' '' @
      str_float64_array L (map (\<lambda>x. around2 L (b64 (x * 100))) r) @ [newline] @ rest"
  have fb: "format_block L k0 a p r pr_ranks @ rest =
      k0 @ [newline] @ ''  mAP='' @ str_float64 L (around2 L (b64 (a * 100))) @ [newline] @
      ''  mP@k'' @ (CHR ''['' # u @ newline # v) @ tail"
    by (simp add: format_block_def tail_def t uv)
  from ReadMetricsFile_wrapped [OF k0 _ un ub, of "str_float64 L (around2 L (b64 (a * 100)))"]
    assms(5)
  obtain e where "ReadMetricsFile L (format_block L k0 a p r pr_ranks @ rest) = Inl e"
    unfolding fb by blast
  with w show ?thesis
    by (simp add: SaveMetricsFile_def keys_def [symmetric] keys)
qed

theorem SaveMetricsFile_wrapped_ranks_unreadable_witness:
  "newline \<notin> set ''easy'' \<and> newline \<in> set (np_int_array_str ranks30) \<and>
   length ranks30 = 30 \<and>
   (\<exists>content e.
      SaveMetricsFile lib_half [(''easy'', 1 / 2)] [(''easy'', replicate 30 (1 / 2))]
        [(''easy'', replicate 30 (1 / 2))] ranks30 = Inr content \<and>
      ReadMetricsFile lib_half content = Inl e)"
proof -
  have k: "newline \<notin> set ''easy''" by (simp add: newline_def)
  have n: "newline \<in> set (np_int_array_str ranks30)"
    by (simp add: ranks30_rendering ranks30_str_def)
  have l: "length ranks30 = 30" by (simp add: ranks30_def)
  have f: "\<forall>x. newline \<notin> set (str_float64 lib_half x)"
    by (simp add: lib_half_def newline_def)
  have "\<exists>content e.
      SaveMetricsFile lib_half [(''easy'', 1 / 2)] [(''easy'', replicate 30 (1 / 2))]
        [(''easy'', replicate 30 (1 / 2))] ranks30 = Inr content \<and>
      ReadMetricsFile lib_half content = Inl e"
    using k by (intro SaveMetricsFile_wrapped_ranks_unreadable f n) simp_all
  with k n l show ?thesis by blast
qed

text \<open>
  The thirty ranks 1 to 30 with every score 0.5: the file written has eight lines, its third
  line ends after the rank 24, the ranks read from it are 1 to 24, and the scores of that
  line are missing: \<open>IndexError\<close>.
\<close>

lemma fifty30_rendering: "format_array (replicate 30 ''50.'') = fifty30_str"
  by (simp add: format_array_def fifty30_str_def extend_line_def rstrip_def is_space_def
      newline_def eval_nat_numeral)

lemma SaveMetricsFile_half:
  "SaveMetricsFile lib_half [(''easy'', 1 / 2)] [(''easy'', replicate 30 (1 / 2))]
     [(''easy'', replicate 30 (1 / 2))] ranks30 = Inr half_file"
  by (simp add: SaveMetricsFile_def format_block_def lib_half_def half_file_def ranks30_rendering
      fifty30_rendering)

lemma half_file_lines:
  "map rstrip (file_lines half_file) =
     [''easy'', ''  mAP=50.0'',
      ''  mP@k[ 1  2  3  4  5  6  7  8  9 10 11 12 13 14 15 16 17 18 19 20 21 22 23 24'',
      '' 25 26 27 28 29 30] [50. 50. 50. 50. 50. 50. 50. 50. 50. 50. 50. 50. 50. 50. 50. 50. 50. 50.'',
      '' 50. 50. 50. 50. 50. 50. 50. 50. 50. 50. 50. 50.]'',
      ''  mR@k[ 1  2  3  4  5  6  7  8  9 10 11 12 13 14 15 16 17 18 19 20 21 22 23 24'',
      '' 25 26 27 28 29 30] [50. 50. 50. 50. 50. 50. 50. 50. 50. 50. 50. 50. 50. 50. 50. 50. 50. 50.'',
      '' 50. 50. 50. 50. 50. 50. 50. 50. 50. 50. 50. 50.]'']"
  by (simp add: half_file_def ranks30_str_def fifty30_str_def file_lines_def newline_def
      rstrip_def is_space_def)

lemma ParsePrRanks_half:
  "ParsePrRanks lib_half
     ''  mP@k[ 1  2  3  4  5  6  7  8  9 10 11 12 13 14 15 16 17 18 19 20 21 22 23 24'' =
   Inr [1, 2, 3, 4, 5, 6, 7, 8, 9, 10, 11, 12, 13, 14, 15, 16, 17, 18, 19, 20, 21, 22, 23, 24]"
  by (simp add: ParsePrRanks_def ParseSpaceSeparatedStringsInBrackets_def startswith_def
      split_ws_def is_space_def lib_half_def dec_digit_def)

lemma ParsePrScores_half:
  "ParsePrScores lib_half
     ''  mP@k[ 1  2  3  4  5  6  7  8  9 10 11 12 13 14 15 16 17 18 19 20 21 22 23 24'' n =
   Inl IndexError"
  by (simp add: ParsePrScores_def ParseSpaceSeparatedStringsInBrackets_def startswith_def)

lemma float_of_str_half: "float_of_str lib_half ''50.0'' = Some 50"
  by (simp add: lib_half_def)

lemma ReadMetricsFile_half_file: "ReadMetricsFile lib_half half_file = Inl IndexError"
  by (simp add: ReadMetricsFile_def half_file_lines ParsePrRanks_half ParsePrScores_half
      float_of_str_half Let_def)

text \<open>
  The two ranks 1 and 5 with every score 0.5, for comparison: the rank array fits on the
  line, and the values read are the values written.
\<close>

lemma SaveMetricsFile_two_ranks:
  "SaveMetricsFile lib_half [(''easy'', 1 / 2)] [(''easy'', [1 / 2, 1 / 2])]
     [(''easy'', [1 / 2, 1 / 2])] [1, 5] = Inr two_ranks_file"
  by (simp add: SaveMetricsFile_def format_block_def lib_half_def two_ranks_file_def
      np_int_array_str_def format_array_def extend_line_def rjust_def str_int_def str_nat_numeral
      Let_def)

lemma b64_half: "b64 (1 / 2) = 1 / 2"
  by (simp add: b64_def round_half_even_def pow2_def Let_def eval_nat_numeral)

lemma two_ranks_file_lines:
  "map rstrip (file_lines two_ranks_file) =
     [''easy'', ''  mAP=50.0'', ''  mP@k[1 5] [50. 50.]'', ''  mR@k[1 5] [50. 50.]'']"
  by (simp add: two_ranks_file_def file_lines_def newline_def rstrip_def is_space_def)

lemma ParsePrRanks_two_ranks: "ParsePrRanks lib_half ''  mP@k[1 5] [50. 50.]'' = Inr [1, 5]"
  by (simp add: ParsePrRanks_def ParseSpaceSeparatedStringsInBrackets_def startswith_def
      split_ws_def is_space_def lib_half_def dec_digit_def)

lemma ParsePrScores_two_ranks:
  "n = 2 \<Longrightarrow> ParsePrScores lib_half ''  mP@k[1 5] [50. 50.]'' n = Inr [50, 50]"
  "n = 2 \<Longrightarrow> ParsePrScores lib_half ''  mR@k[1 5] [50. 50.]'' n = Inr [50, 50]"
  by (simp_all add: ParsePrScores_def ParseSpaceSeparatedStringsInBrackets_def startswith_def
      split_ws_def is_space_def lib_half_def)

lemma ReadMetricsFile_two_ranks_file:
  "ReadMetricsFile lib_half two_ranks_file =
     Inr ([(''easy'', 1 / 2)], [1, 5], [(''easy'', [1 / 2, 1 / 2])], [(''easy'', [1 / 2, 1 / 2])])"
  by (simp add: ReadMetricsFile_def two_ranks_file_lines ParsePrRanks_two_ranks
      ParsePrScores_two_ranks float_of_str_half b64_half Let_def)

end
